theory Spec2Isabelle
  imports Main
begin

section \<open>Characters and strings\<close>

text \<open>
  A Python \<^verbatim>\<open>str\<close> is modelled as a \<^typ>\<open>string\<close>, one \<^typ>\<open>char\<close> per
  code point. The model covers the strings of code points below 256 and nothing else:
  a string with a code point from 256 on has no counterpart here, and no statement of
  this theory speaks about it.
\<close>

definition LF :: char where "LF = CHR 0x0A"
definition CR :: char where "CR = CHR 0x0D"
definition TAB :: char where "TAB = CHR 0x09"
definition SPACE :: char where "SPACE = CHR 0x20"

text \<open>
  \<^verbatim>\<open>str.isspace\<close> on one code point below 256; it is also the class \<^verbatim>\<open>\s\<close> of a
  \<^verbatim>\<open>str\<close> pattern.
\<close>

definition isspace :: "char \<Rightarrow> bool" where
  "isspace c =
     (let n = (of_char c :: nat)
      in (9 \<le> n \<and> n \<le> 13) \<or> (28 \<le> n \<and> n \<le> 32) \<or> n = 133 \<or> n = 160)"

text \<open>
  \<^verbatim>\<open>str.lower\<close> on one code point below 256 (letters A-Z and the Latin-1 capitals).
  On these code points \<^verbatim>\<open>str.lower\<close> gives one code point for each, so \<open>lower\<close>
  keeps the length of a string of the model. (Outside the model it need not: the lower
  case of U+0130 has two code points, and \<^verbatim>\<open>normalize_url_style_declaration\<close>
  computes an offset from the length of a lowercased group.)
\<close>

definition lower_char :: "char \<Rightarrow> char" where
  "lower_char c =
     (let n = (of_char c :: nat)
      in if (65 \<le> n \<and> n \<le> 90) \<or> (192 \<le> n \<and> n \<le> 222 \<and> n \<noteq> 215)
         then char_of (n + 32) else c)"

definition lower :: "string \<Rightarrow> string" where
  "lower s = map lower_char s"

text \<open>\<^verbatim>\<open>str.strip()\<close>, \<^verbatim>\<open>str.lstrip()\<close> and \<^verbatim>\<open>str.rstrip()\<close> without argument.\<close>

definition lstrip :: "string \<Rightarrow> string" where
  "lstrip s = dropWhile isspace s"

definition rstrip :: "string \<Rightarrow> string" where
  "rstrip s = rev (dropWhile isspace (rev s))"

definition strip :: "string \<Rightarrow> string" where
  "strip s = rstrip (lstrip s)"

section \<open>Text white space (\<^verbatim>\<open>handle_white_spaces\<close>)\<close>

text \<open>
  \<^verbatim>\<open>re.sub('[...]', repl, string)\<close> for a pattern that is one character class:
  every character of the class is replaced by \<open>repl\<close>.
\<close>

primrec re_sub_class :: "(char \<Rightarrow> bool) \<Rightarrow> string \<Rightarrow> string \<Rightarrow> string" where
  "re_sub_class cls repl [] = []"
| "re_sub_class cls repl (c # cs) =
     (if cls c then repl @ re_sub_class cls repl cs else c # re_sub_class cls repl cs)"

text \<open>
  \<^verbatim>\<open>re.sub(' +', ' ', string)\<close>: scanning from the left, each maximal run of one or
  more spaces (the greedy \<^verbatim>\<open>' +'\<close>) is replaced by one space.
\<close>

function re_sub_spaces :: "string \<Rightarrow> string" where
  "re_sub_spaces [] = []"
| "re_sub_spaces (c # cs) =
     (if c = SPACE then SPACE # re_sub_spaces (dropWhile (\<lambda>d. d = SPACE) cs)
      else c # re_sub_spaces cs)"
  by pat_completeness auto
termination
  by (relation "measure length") (auto simp: length_dropWhile_le less_Suc_eq_le)

text \<open>
  \<^verbatim>\<open>handle_white_spaces(string, preserve)\<close>. The argument is \<open>None\<close> for Python's
  \<^verbatim>\<open>None\<close> (an element without text); \<^verbatim>\<open>not string\<close> holds for \<^verbatim>\<open>None\<close> and
  for the empty string.
\<close>

definition handle_white_spaces :: "string option \<Rightarrow> bool \<Rightarrow> string" where
  "handle_white_spaces string preserve =
     (case string of
        None \<Rightarrow> []
      | Some s \<Rightarrow>
          if s = [] then []
          else if preserve then re_sub_class (\<lambda>c. c = LF \<or> c = CR \<or> c = TAB) [SPACE] s
          else
            let s1 = re_sub_class (\<lambda>c. c = LF \<or> c = CR) [] s;
                s2 = re_sub_class (\<lambda>c. c = TAB) [SPACE] s1
            in re_sub_spaces s2)"

text \<open>
  The specification's wording of the default mode, for comparison with the code:
  a run of two or more spaces is collapsed by dropping every space that is followed by
  another space.
\<close>

fun collapse_runs :: "string \<Rightarrow> string" where
  "collapse_runs [] = []"
| "collapse_runs [c] = [c]"
| "collapse_runs (a # b # cs) =
     (if a = SPACE \<and> b = SPACE then collapse_runs (b # cs) else a # collapse_runs (b # cs))"

section \<open>Regular expressions as the code uses them\<close>

text \<open>
  The two patterns of the style normalizer are kept as data and run by a backtracking
  matcher with the priorities of Python's \<^verbatim>\<open>re\<close>: the alternatives of \<^verbatim>\<open>|\<close> from left
  to right, a greedy \<^verbatim>\<open>*\<close> tries one more repetition before it stops, a lazy \<^verbatim>\<open>*?\<close>
  stops before it tries one more.
\<close>

datatype rx =
    Cls "char \<Rightarrow> bool"
  | Eps
  | Bol
  | Eol
  | Seq rx rx
  | Alt rx rx
  | Star rx
  | Lazy rx

text \<open>
  A matcher state is the position in the subject and the text from there on.
  \<open>rx_match r st\<close> lists the states in which a match of \<open>r\<close> from \<open>st\<close> can end, in the
  order in which backtracking reaches them; the first one is the match that is found.
  \<^verbatim>\<open>^\<close> holds at position 0 and \<^verbatim>\<open>$\<close> at the end or before a final newline (no
  \<^verbatim>\<open>MULTILINE\<close>). A repetition goes on only after a step that consumed a character
  (every repeated sub-pattern of the two patterns consumes one).
\<close>

function rx_match :: "rx \<Rightarrow> nat \<times> string \<Rightarrow> (nat \<times> string) list" where
  "rx_match (Cls P) (i, s) =
     (case s of [] \<Rightarrow> [] | c # cs \<Rightarrow> if P c then [(Suc i, cs)] else [])"
| "rx_match Eps st = [st]"
| "rx_match Bol (i, s) = (if i = 0 then [(i, s)] else [])"
| "rx_match Eol (i, s) = (if s = [] \<or> s = [LF] then [(i, s)] else [])"
| "rx_match (Seq a b) st = concat (map (rx_match b) (rx_match a st))"
| "rx_match (Alt a b) st = rx_match a st @ rx_match b st"
| "rx_match (Star a) st =
     concat (map (\<lambda>st'. if length (snd st') < length (snd st)
                          then rx_match (Star a) st' else [])
                 (rx_match a st)) @ [st]"
| "rx_match (Lazy a) st =
     st # concat (map (\<lambda>st'. if length (snd st') < length (snd st)
                               then rx_match (Lazy a) st' else [])
                      (rx_match a st))"
  by pat_completeness auto
termination
  by (relation "measures [\<lambda>(r, st). size r, \<lambda>(r, st). length (snd st)]") auto

fun seqs :: "rx list \<Rightarrow> rx" where
  "seqs [] = Eps"
| "seqs (r # rs) = Seq r (seqs rs)"

text \<open>
  A match object: \<^verbatim>\<open>match.start()\<close>, the text of the group that the code reads
  (\<^verbatim>\<open>match.group(1)\<close>, or the whole match \<^verbatim>\<open>match.group()\<close>), and \<^verbatim>\<open>match.end()\<close>.
\<close>

record rmatch =
  m_start :: nat
  m_group :: string
  m_end :: nat

text \<open>
  The candidates of a pattern \<^verbatim>\<open>(g)t\<close> at one start state, in backtracking order:
  the end of the group and the end of the whole match.
\<close>

definition match_here :: "rx \<Rightarrow> rx \<Rightarrow> nat \<times> string \<Rightarrow> ((nat \<times> string) \<times> (nat \<times> string)) list" where
  "match_here g t st = concat (map (\<lambda>ge. map (\<lambda>e. (ge, e)) (rx_match t ge)) (rx_match g st))"

text \<open>
  \<^verbatim>\<open>pattern.finditer(string)\<close> (and the scan of \<^verbatim>\<open>re.sub\<close>) for a pattern \<^verbatim>\<open>(g)t\<close>:
  the leftmost match from the current position, then the scan goes on from its end.
  After an empty match the next search must advance: at the same start an empty match
  is rejected (\<open>adv\<close>), and the matcher backtracks or moves one character on.
\<close>

function finditer :: "rx \<Rightarrow> rx \<Rightarrow> nat \<times> string \<Rightarrow> bool \<Rightarrow> rmatch list" where
  "finditer g t (i, s) adv =
     (case filter (\<lambda>(ge, e). \<not> (adv \<and> fst e = i)) (match_here g t (i, s)) of
        [] \<Rightarrow> (case s of [] \<Rightarrow> [] | c # cs \<Rightarrow> finditer g t (Suc i, cs) False)
      | (ge, e) # _ \<Rightarrow>
          \<lparr>m_start = i, m_group = take (fst ge - i) s, m_end = fst e\<rparr> #
          (if length (snd e) < length s then finditer g t e False
           else if adv then [] else finditer g t (i, s) True))"
  by pat_completeness auto
termination
  by (relation "measures [\<lambda>(g, t, st, adv). length (snd st),
                          \<lambda>(g, t, st, adv). if adv then 0 else 1]") auto

section \<open>Style declaration normalizer\<close>

definition BACKSLASH :: char where "BACKSLASH = CHR 0x5C"
definition DQUOTE :: char where "DQUOTE = CHR 0x22"
definition SQUOTE :: char where "SQUOTE = CHR 0x27"

text \<open>The class \<^verbatim>\<open>.\<close> (no \<^verbatim>\<open>DOTALL\<close>): any character but a newline.\<close>

definition dot :: "char \<Rightarrow> bool" where
  "dot c = (c \<noteq> LF)"

text \<open>A letter of the pattern under \<^verbatim>\<open>re.IGNORECASE\<close>.\<close>

definition ci :: "char \<Rightarrow> char \<Rightarrow> bool" where
  "ci l c = (lower_char c = l)"

text \<open>
  The pattern of \<^verbatim>\<open>normalize_url_style_declaration\<close> (\<^verbatim>\<open>re.IGNORECASE | re.VERBOSE\<close>):
  \<^verbatim>\<open>(.*?)(?:url\(\s*(?:"(?:\\.|[^"])*"|'(?:\\.|[^'])*'|(?:\\.|[^\)])*)\s*\)|$)\<close>.
\<close>

definition rx_escaped :: rx where
  "rx_escaped = Seq (Cls (\<lambda>c. c = BACKSLASH)) (Cls dot)"

definition rx_url_double :: rx where
  "rx_url_double =
     seqs [Cls (\<lambda>c. c = DQUOTE), Star (Alt rx_escaped (Cls (\<lambda>c. c \<noteq> DQUOTE))),
           Cls (\<lambda>c. c = DQUOTE)]"

definition rx_url_single :: rx where
  "rx_url_single =
     seqs [Cls (\<lambda>c. c = SQUOTE), Star (Alt rx_escaped (Cls (\<lambda>c. c \<noteq> SQUOTE))),
           Cls (\<lambda>c. c = SQUOTE)]"

definition rx_url_bare :: rx where
  "rx_url_bare = Star (Alt rx_escaped (Cls (\<lambda>c. c \<noteq> CHR '')'')))"

definition rx_url :: rx where
  "rx_url =
     seqs [Cls (ci CHR ''u''), Cls (ci CHR ''r''), Cls (ci CHR ''l''), Cls (\<lambda>c. c = CHR ''(''),
           Star (Cls isspace),
           Alt rx_url_double (Alt rx_url_single rx_url_bare),
           Star (Cls isspace), Cls (\<lambda>c. c = CHR '')'')]"

definition regex_style_group1 :: rx where
  "regex_style_group1 = Lazy (Cls dot)"

definition regex_style_rest :: rx where
  "regex_style_rest = Alt rx_url Eol"

text \<open>
  \<^verbatim>\<open>normalize_url_style_declaration(value)\<close>. The matches are those of the value the
  function was called with; each step rebuilds \<open>value\<close> around the lowercased group 1.
\<close>

definition url_step :: "string \<Rightarrow> rmatch \<Rightarrow> string" where
  "url_step value m =
     (let value_start = (if m_start m > 0 then take (m_start m) value else []);
          normalized_value = lower (m_group m);
          value_end = drop (m_start m + length normalized_value) value
      in value_start @ normalized_value @ value_end)"

definition normalize_url_style_declaration :: "string \<Rightarrow> string" where
  "normalize_url_style_declaration value =
     foldl url_step value (finditer regex_style_group1 regex_style_rest (0, value) False)"

definition normalize_noop_style_declaration :: "string \<Rightarrow> string" where
  "normalize_noop_style_declaration value = value"

text \<open>The classes \<^verbatim>\<open>\d\<close> and \<^verbatim>\<open>\w\<close> of a \<^verbatim>\<open>str\<close> pattern, on code points below 256.\<close>

definition isdigit :: "char \<Rightarrow> bool" where
  "isdigit c = (let n = (of_char c :: nat) in 48 \<le> n \<and> n \<le> 57)"

definition isword :: "char \<Rightarrow> bool" where
  "isword c =
     (let n = (of_char c :: nat)
      in (48 \<le> n \<and> n \<le> 57) \<or> (65 \<le> n \<and> n \<le> 90) \<or> n = 95 \<or> (97 \<le> n \<and> n \<le> 122)
         \<or> n = 170 \<or> n = 178 \<or> n = 179 \<or> n = 181 \<or> n = 185 \<or> n = 186
         \<or> (188 \<le> n \<and> n \<le> 190) \<or> (192 \<le> n \<and> n \<le> 214) \<or> (216 \<le> n \<and> n \<le> 246)
         \<or> 248 \<le> n)"

text \<open>
  The pattern of \<^verbatim>\<open>normalize_font_style_declaration\<close> (\<^verbatim>\<open>re.VERBOSE\<close>):
  \<^verbatim>\<open>^((\d[^\s,]*|\w[^\s,]*)(\s+|\s*,\s*))*\d[^\s,]*\<close>.
\<close>

definition rx_font_token :: rx where
  "rx_font_token = Star (Cls (\<lambda>c. \<not> isspace c \<and> c \<noteq> CHR '',''))"

definition regex_font :: rx where
  "regex_font =
     seqs [Bol,
           Star (Seq (Alt (Seq (Cls isdigit) rx_font_token) (Seq (Cls isword) rx_font_token))
                     (Alt (Seq (Cls isspace) (Star (Cls isspace)))
                          (seqs [Star (Cls isspace), Cls (\<lambda>c. c = CHR '',''),
                                 Star (Cls isspace)]))),
           Cls isdigit, rx_font_token]"

text \<open>
  \<^verbatim>\<open>re.sub(pattern, repl, string)\<close> with a function \<open>repl\<close> of the matched text, given
  the matches: the text between the matches is kept.
\<close>

fun re_sub_matches :: "(string \<Rightarrow> string) \<Rightarrow> string \<Rightarrow> nat \<Rightarrow> rmatch list \<Rightarrow> string" where
  "re_sub_matches repl string p [] = drop p string"
| "re_sub_matches repl string p (m # ms) =
     take (m_start m - p) (drop p string) @ repl (m_group m) @
     re_sub_matches repl string (m_end m) ms"

definition normalize_font_style_declaration :: "string \<Rightarrow> string" where
  "normalize_font_style_declaration value =
     re_sub_matches lower value 0 (finditer regex_font Eps (0, value) False)"

text \<open>\<^verbatim>\<open>CASE_SENSITIVE_STYLE_METHODS\<close>: the dictionary from a name to its method.\<close>

definition CASE_SENSITIVE_STYLE_METHODS :: "string \<Rightarrow> (string \<Rightarrow> string) option" where
  "CASE_SENSITIVE_STYLE_METHODS name =
     (if name = ''id'' \<or> name = ''class'' \<or> name = ''font-family''
        then Some normalize_noop_style_declaration
      else if name = ''font'' then Some normalize_font_style_declaration
      else if name \<in> set [''clip-path'', ''color-profile'', ''cursor'', ''fill'', ''filter'',
                           ''marker-start'', ''marker-mid'', ''marker-end'', ''mask'', ''stroke'']
        then Some normalize_url_style_declaration
      else None)"

definition normalize_style_declaration :: "string \<Rightarrow> string \<Rightarrow> string \<times> string" where
  "normalize_style_declaration name value =
     (let name = lower (strip name);
          value = strip value;
          value = (case CASE_SENSITIVE_STYLE_METHODS name of
                     Some method \<Rightarrow> method value
                   | None \<Rightarrow> lower value)
      in (name, value))"

section \<open>Node attributes: inheritance, cascade, special values\<close>

text \<open>
  A \<^verbatim>\<open>Node\<close> is a \<^verbatim>\<open>dict\<close> from attribute names to values. The dictionary is kept as
  the list of its items in insertion order, with one item per key.
\<close>

type_synonym attribs = "(string \<times> string) list"
type_synonym decl = "string \<times> string"

text \<open>\<^verbatim>\<open>d[k] = v\<close>: an existing key keeps its place, a new key goes to the end.\<close>

fun setitem :: "string \<Rightarrow> string \<Rightarrow> attribs \<Rightarrow> attribs" where
  "setitem k v [] = [(k, v)]"
| "setitem k v ((k', v') # d) = (if k' = k then (k', v) # d else (k', v') # setitem k v d)"

text \<open>\<^verbatim>\<open>del d[k]\<close> for a key of \<open>d\<close>.\<close>

definition delitem :: "string \<Rightarrow> attribs \<Rightarrow> attribs" where
  "delitem k d = filter (\<lambda>(k', v). k' \<noteq> k) d"

text \<open>\<^verbatim>\<open>d.get(k)\<close>, with \<open>None\<close> for a missing key.\<close>

definition dict_get :: "attribs \<Rightarrow> string \<Rightarrow> string option" where
  "dict_get d k = map_of d k"

text \<open>\<^verbatim>\<open>d.update(items)\<close>.\<close>

definition dict_update :: "attribs \<Rightarrow> (string \<times> string) list \<Rightarrow> attribs" where
  "dict_update d items = foldl (\<lambda>d (k, v). setitem k v d) d items"

definition NOT_INHERITED_ATTRIBUTES :: "string set" where
  "NOT_INHERITED_ATTRIBUTES = set
     [''clip'', ''clip-path'', ''display'', ''filter'', ''height'', ''id'', ''mask'',
      ''opacity'', ''overflow'', ''rotate'', ''stop-color'', ''stop-opacity'', ''style'',
      ''transform'', ''viewBox'', ''width'', ''x'', ''y'', ''dx'', ''dy'',
      ''{http://www.w3.org/1999/xlink}href'']"

text \<open>
  \<^verbatim>\<open>COLOR_ATTRIBUTES\<close> is a \<^verbatim>\<open>frozenset\<close>; the loop over it is modelled in the order
  below (no step of the loop reads what another step writes).
\<close>

definition COLOR_ATTRIBUTES :: "string list" where
  "COLOR_ATTRIBUTES = [''fill'', ''flood-color'', ''lighting-color'', ''stop-color'', ''stroke'']"

text \<open>
  Lines 194-197: the items a node takes from its parent,
  \<^verbatim>\<open>[(attribute, parent[attribute]) for attribute in parent if attribute not in NOT_INHERITED_ATTRIBUTES]\<close>
  (the keys of the parent in order, each with the value the parent holds for it).
\<close>

definition inherited_items :: "attribs option \<Rightarrow> (string \<times> string) list" where
  "inherited_items parent =
     (case parent of
        None \<Rightarrow> []
      | Some p \<Rightarrow>
          concat (map (\<lambda>attribute. case dict_get p attribute of
                                    Some v \<Rightarrow> [(attribute, v)] | None \<Rightarrow> [])
                      (filter (\<lambda>attribute. attribute \<notin> NOT_INHERITED_ATTRIBUTES)
                              (map fst p))))"

text \<open>Line 220, for one list of declarations: \<^verbatim>\<open>self[name] = value.strip()\<close>.\<close>

definition apply_declarations :: "attribs \<Rightarrow> decl list \<Rightarrow> attribs" where
  "apply_declarations d declarations =
     foldl (\<lambda>d (name, value). setitem name (strip value) d) d declarations"

definition apply_declaration_lists :: "attribs \<Rightarrow> decl list list \<Rightarrow> attribs" where
  "apply_declaration_lists d declaration_lists = foldl apply_declarations d declaration_lists"

text \<open>
  Lines 194-220: the dictionary after inheritance, the element's own attributes
  (\<open>attrib\<close>) and the four tiers of declarations. \<open>normal\<close> and \<open>important\<close> are the
  decl lists of the rules the two matchers return for the element,
  \<open>normal_attr\<close> and \<open>important_attr\<close> the two lists parsed from the \<^verbatim>\<open>style\<close>
  attribute.
\<close>

definition cascade ::
  "attribs option \<Rightarrow> attribs \<Rightarrow> decl list list \<Rightarrow> decl list \<Rightarrow>
   decl list list \<Rightarrow> decl list \<Rightarrow> attribs" where
  "cascade parent attrib normal normal_attr important important_attr =
     (let d = dict_update [] (inherited_items parent);
          d = dict_update d attrib
      in foldl apply_declaration_lists d [normal, [normal_attr], important, [important_attr]])"

text \<open>Lines 222-225: \<^verbatim>\<open>currentColor\<close> is replaced by the value of \<^verbatim>\<open>color\<close>.\<close>

definition replace_current_color :: "attribs \<Rightarrow> attribs" where
  "replace_current_color d =
     foldl (\<lambda>d attribute.
              if dict_get d attribute = Some ''currentColor''
              then setitem attribute
                     (case dict_get d ''color'' of Some c \<Rightarrow> c | None \<Rightarrow> ''black'') d
              else d)
           d COLOR_ATTRIBUTES"

text \<open>
  Lines 227-234: the attributes whose value is \<^verbatim>\<open>inherit\<close> are listed first; each one
  takes the parent's value, or is deleted when there is no parent or the parent has no
  such attribute.
\<close>

definition replace_inherit :: "attribs option \<Rightarrow> attribs \<Rightarrow> attribs" where
  "replace_inherit parent d =
     foldl (\<lambda>d attribute.
              case parent of
                None \<Rightarrow> delitem attribute d
              | Some p \<Rightarrow>
                  (case dict_get p attribute of
                     Some v \<Rightarrow> setitem attribute v d
                   | None \<Rightarrow> delitem attribute d))
           d (filter (\<lambda>attribute. dict_get d attribute = Some ''inherit'') (map fst d))"

definition post_process :: "attribs option \<Rightarrow> attribs \<Rightarrow> attribs" where
  "post_process parent d = replace_inherit parent (replace_current_color d)"

text \<open>
  Lines 207-212: the two declaration lists of the \<^verbatim>\<open>style\<close> attribute.
  \<open>parse_declarations\<close> is the function of the module \<^verbatim>\<open>css\<close> (not among the
  sources); it is called only for a non-empty \<^verbatim>\<open>style\<close> attribute.
\<close>

definition style_declarations ::
  "(string \<Rightarrow> decl list \<times> decl list) \<Rightarrow> attribs \<Rightarrow> decl list \<times> decl list" where
  "style_declarations parse_declarations attrib =
     (case dict_get attrib ''style'' of
        None \<Rightarrow> ([], [])
      | Some style_attr \<Rightarrow>
          if style_attr = [] then ([], []) else parse_declarations style_attr)"

text \<open>
  Lines 194-234 in one piece: the attributes of a node, from the parent's attributes
  (\<open>None\<close> without a parent), the element's own attributes and the declaration lists
  of the rules that the two matchers return for the element.
\<close>

definition resolve_attributes ::
  "(string \<Rightarrow> decl list \<times> decl list) \<Rightarrow> attribs option \<Rightarrow> attribs \<Rightarrow>
   decl list list \<Rightarrow> decl list list \<Rightarrow> attribs" where
  "resolve_attributes parse_declarations parent attrib normal important =
     (case style_declarations parse_declarations attrib of
        (normal_attr, important_attr) \<Rightarrow>
          post_process parent
            (cascade parent attrib normal normal_attr important important_attr))"






definition last_assigned :: "(string \<times> string) list \<Rightarrow> string \<Rightarrow> string option" where
  "last_assigned assignments name = map_of (rev assignments) name"

section \<open>Elements and nodes\<close>

text \<open>
  A raw element as the code reads it through its \<^verbatim>\<open>cssselect2\<close> wrapper: namespace,
  local name, attributes, text, tail and child elements.
\<close>

datatype element =
  Element (e_namespace_url: string) (e_local_name: string) (e_attrib: attribs)
          (e_text: "string option") (e_tail: "string option") (e_children: "element list")

text \<open>
  A matcher, taken as the function from an element to the declarations of the rules it
  matches, in order (\<^verbatim>\<open>[rule[-1] for rule in matcher.match(element)]\<close>); a style is
  the pair of the normal and the important matcher.
\<close>

type_synonym matcher = "element \<Rightarrow> decl list list"
type_synonym style = "matcher \<times> matcher"
type_synonym bytes = string

text \<open>
  Exceptions: the \<^verbatim>\<open>TypeError\<close> the parser raises itself, the \<^verbatim>\<open>AttributeError\<close> of
  an attribute read on \<^verbatim>\<open>None\<close>, and whatever a called function of another module
  raises.
\<close>

datatype error =
    TypeError string
  | AttributeError string
  | CollaboratorError string

text \<open>
  The outcome of a call: it returns, it raises, or the recursion is cut off before the
  call is finished (\<open>Unfinished\<close>).
\<close>

datatype 'a outcome = Returns 'a | Raises error | Unfinished

definition obind :: "'a outcome \<Rightarrow> ('a \<Rightarrow> 'b outcome) \<Rightarrow> 'b outcome" where
  "obind m f = (case m of Returns x \<Rightarrow> f x | Raises e \<Rightarrow> Raises e | Unfinished \<Rightarrow> Unfinished)"

type_synonym fetcher = "string \<Rightarrow> string \<Rightarrow> error + bytes"

text \<open>
  A \<^verbatim>\<open>Node\<close>: its dictionary (\<open>n_items\<close>) and its attributes. \<open>n_parent\<close> holds the
  parent as it was when the node was built.
\<close>

datatype node =
  Node (n_children: "node list") (n_root: bool) (n_element: element) (n_style: style)
       (n_tag: string) (n_text: "string option") (n_url_fetcher: fetcher) (n_unsafe: bool)
       (n_xml_tree: element) (n_items: attribs) (n_url: "string option")
       (n_parent: "node option")

fun set_children :: "node \<Rightarrow> node list \<Rightarrow> node" where
  "set_children (Node ch ro el st tg tx fe us xt it ur pa) ch' =
     Node ch' ro el st tg tx fe us xt it ur pa"

fun set_text :: "node \<Rightarrow> string option \<Rightarrow> node" where
  "set_text (Node ch ro el st tg tx fe us xt it ur pa) tx' =
     Node ch ro el st tg tx' fe us xt it ur pa"

fun set_items :: "node \<Rightarrow> attribs \<Rightarrow> node" where
  "set_items (Node ch ro el st tg tx fe us xt it ur pa) it' =
     Node ch ro el st tg tx fe us xt it' ur pa"

text \<open>
  Lines 346-349, the attributes a cache hit sets on the new node:
  \<^verbatim>\<open>xml_tree\<close>, \<^verbatim>\<open>url\<close>, \<^verbatim>\<open>tag\<close> and \<^verbatim>\<open>root = True\<close>.
\<close>

fun set_tree_attributes :: "node \<Rightarrow> element \<Rightarrow> string option \<Rightarrow> string \<Rightarrow> node" where
  "set_tree_attributes (Node ch ro el st tg tx fe us xt it ur pa) xt' ur' tg' =
     Node ch True el st tg' tx fe us xt' it ur' pa"

text \<open>Line 415: \<^verbatim>\<open>self.root = True\<close>.\<close>

fun set_root :: "node \<Rightarrow> node" where
  "set_root (Node ch ro el st tg tx fe us xt it ur pa) =
     Node ch True el st tg tx fe us xt it ur pa"

text \<open>
  The result of \<^verbatim>\<open>urlparse\<close>: scheme, netloc, path, params, query, fragment.
\<close>

record parsed_url =
  scheme :: string
  netloc :: string
  path :: string
  params :: string
  query :: string
  fragment :: string

type_synonym rotation = "string list"

text \<open>
  The functions of other modules that the parser calls. None of them is among the
  sources, so each is a parameter: \<^verbatim>\<open>url.parse_url\<close> (the URL and the base URL),
  \<^verbatim>\<open>urllib.parse.urlunparse\<close>, \<^verbatim>\<open>ParseResult.geturl\<close>, \<^verbatim>\<open>url.read_url\<close>, the default
  \<^verbatim>\<open>url.fetch\<close>, \<^verbatim>\<open>gzip.decompress\<close>, \<^verbatim>\<open>ElementTree.fromstring\<close> (with
  \<^verbatim>\<open>forbid_entities\<close> and \<^verbatim>\<open>forbid_external\<close>), \<^verbatim>\<open>css.parse_stylesheets\<close> (given the
  tree's document, its URL and the \<^verbatim>\<open>url\<close> argument), \<^verbatim>\<open>css.parse_declarations\<close>,
  \<^verbatim>\<open>features.match_features\<close>, \<^verbatim>\<open>helpers.rotations\<close>, \<^verbatim>\<open>helpers.pop_rotation\<close>
  (which returns the dictionary of the node and the list \<open>rotate\<close> as it leaves them). \<open>tref_child\<close>
  stands for one step of the text loop on a \<^verbatim>\<open>tref\<close> child (lines 276-304, which
  load the referenced tree and overwrite the text of the referenced element): from the
  node, the \<^verbatim>\<open>tref\<close> element, \<open>trailing_space\<close>, \<open>original_rotate\<close> and \<open>rotate\<close> it
  gives the finished child node, \<open>trailing_space\<close>, \<open>rotate\<close> and the tail of the
  referenced element.
\<close>

record env =
  parse_url :: "string option \<Rightarrow> string option \<Rightarrow> parsed_url"
  urlunparse :: "parsed_url \<Rightarrow> string"
  geturl :: "parsed_url \<Rightarrow> string"
  read_url :: "parsed_url \<Rightarrow> fetcher \<Rightarrow> string \<Rightarrow> error + bytes"
  fetch :: fetcher
  gzip_decompress :: "bytes \<Rightarrow> error + bytes"
  ElementTree_fromstring :: "bytes \<Rightarrow> bool \<Rightarrow> bool \<Rightarrow> error + element"
  css_parse_stylesheets :: "element \<Rightarrow> string option \<Rightarrow> string option \<Rightarrow> style"
  css_parse_declarations :: "string \<Rightarrow> decl list \<times> decl list"
  match_features :: "element \<Rightarrow> bool"
  rotations :: "node \<Rightarrow> rotation"
  pop_rotation :: "node \<Rightarrow> rotation \<Rightarrow> rotation \<Rightarrow> attribs \<times> rotation"
  tref_child :: "node \<Rightarrow> element \<Rightarrow> bool \<Rightarrow> rotation \<Rightarrow> rotation \<Rightarrow>
                 (node \<times> bool \<times> rotation \<times> string option) outcome"

text \<open>Python's truth value of an optional string and of an optional node (a \<^verbatim>\<open>dict\<close>).\<close>

definition truthy :: "string option \<Rightarrow> bool" where
  "truthy s = (case s of None \<Rightarrow> False | Some t \<Rightarrow> t \<noteq> [])"

definition node_truthy :: "node option \<Rightarrow> bool" where
  "node_truthy parent = (case parent of None \<Rightarrow> False | Some p \<Rightarrow> n_items p \<noteq> [])"

section \<open>Building nodes\<close>

definition SVG_NAMESPACE :: string where
  "SVG_NAMESPACE = ''http://www.w3.org/2000/svg''"

definition XML_SPACE :: string where
  "XML_SPACE = ''{http://www.w3.org/XML/1998/namespace}space''"

text \<open>Lines 182-185: the tag of a node.\<close>

definition node_tag :: "element \<Rightarrow> string" where
  "node_tag element =
     (if e_namespace_url element = [] \<or> e_namespace_url element = SVG_NAMESPACE
      then e_local_name element
      else ''{'' @ e_namespace_url element @ ''}'' @ e_local_name element)"

text \<open>
  Lines 174-234: the node before its children are made. \<open>self_url\<close> is the
  attribute \<^verbatim>\<open>url\<close> that a \<^verbatim>\<open>Tree\<close> has set before it calls this constructor
  (\<open>None\<close> for a plain node); \<^verbatim>\<open>xml_tree\<close> is the element itself (a \<^verbatim>\<open>Tree\<close> sets it
  to the same element beforehand, lines 400-407).
\<close>

definition node_self ::
  "env \<Rightarrow> element \<Rightarrow> style \<Rightarrow> fetcher \<Rightarrow> node option \<Rightarrow> string option \<Rightarrow> bool \<Rightarrow>
   string option \<Rightarrow> node" where
  "node_self env element style url_fetcher parent url unsafe self_url =
     Node [] False element style (node_tag element) (e_text element) url_fetcher unsafe element
       (resolve_attributes (css_parse_declarations env) (map_option n_items parent)
          (e_attrib element) (fst style element) (snd style element))
       (case parent of
          Some p \<Rightarrow> (if truthy url then url else n_url p)
        | None \<Rightarrow> self_url)
       parent"

text \<open>
  Lines 242-245, the list comprehension, and lines 248-254, the loop over the child
  elements: \<open>construct\<close> is the constructor call of the loop body.
\<close>

primrec build_each :: "('a \<Rightarrow> 'b outcome) \<Rightarrow> 'a list \<Rightarrow> 'b list outcome" where
  "build_each construct [] = Returns []"
| "build_each construct (x # xs) =
     obind (construct x) (\<lambda>y. obind (build_each construct xs) (\<lambda>ys. Returns (y # ys)))"

primrec children_loop ::
  "(element \<Rightarrow> node outcome) \<Rightarrow> (element \<Rightarrow> bool) \<Rightarrow> bool \<Rightarrow> element list \<Rightarrow>
   node list outcome" where
  "children_loop construct matches is_switch [] = Returns []"
| "children_loop construct matches is_switch (child # rest) =
     (if matches child
      then obind (construct child)
             (\<lambda>n. if is_switch then Returns [n]
                  else obind (children_loop construct matches is_switch rest)
                         (\<lambda>ns. Returns (n # ns)))
      else children_loop construct matches is_switch rest)"

text \<open>
  \<^verbatim>\<open>Node.__init__\<close>, with the two calls that lead back into it as parameters:
  \<open>text_children\<close> (\<^verbatim>\<open>self.text_children\<close>, which returns the node as it leaves it,
  the children and \<open>trailing_space\<close>) and \<open>node_init\<close> (the constructor itself, for the
  children).
\<close>

definition node_init_body ::
  "(node \<Rightarrow> element \<Rightarrow> bool \<Rightarrow> bool \<Rightarrow> (node \<times> node list \<times> bool) outcome) \<Rightarrow>
   (element \<Rightarrow> style \<Rightarrow> fetcher \<Rightarrow> node option \<Rightarrow> bool \<Rightarrow> string option \<Rightarrow> bool \<Rightarrow>
      string option \<Rightarrow> node outcome) \<Rightarrow>
   env \<Rightarrow> element \<Rightarrow> style \<Rightarrow> fetcher \<Rightarrow> node option \<Rightarrow> bool \<Rightarrow> string option \<Rightarrow> bool \<Rightarrow>
   string option \<Rightarrow> node outcome" where
  "node_init_body text_children node_init env element style url_fetcher parent parent_children
     url unsafe self_url =
     (let self = node_self env element style url_fetcher parent url unsafe self_url
      in obind
           (if n_tag self \<in> set [''text'', ''textPath'', ''a'']
            then obind (text_children self element True True)
                   (\<lambda>(self, children, trailing_space). Returns (set_children self children))
            else Returns self)
           (\<lambda>self.
              if parent_children
              then (case parent of
                      None \<Rightarrow> Raises (AttributeError ''children'')
                    | Some p \<Rightarrow>
                        obind (build_each
                                 (\<lambda>child. node_init (n_element child) style (n_url_fetcher self)
                                            (Some self) False None (n_unsafe self) None)
                                 (n_children p))
                          (\<lambda>children. Returns (set_children self children)))
              else if n_children self = []
              then obind (children_loop
                            (\<lambda>child. node_init child style (n_url_fetcher self) (Some self)
                                       False None (n_unsafe self) None)
                            (match_features env) (n_tag self = ''switch'')
                            (e_children element))
                     (\<lambda>children. Returns (set_children self children))
              else Returns self))"

text \<open>\<^verbatim>\<open>s.lstrip(' ')\<close>, \<^verbatim>\<open>s.rstrip(' ')\<close> and \<^verbatim>\<open>s.endswith(' ')\<close>.\<close>

definition lstrip_space :: "string \<Rightarrow> string" where
  "lstrip_space s = dropWhile (\<lambda>c. c = SPACE) s"

definition rstrip_space :: "string \<Rightarrow> string" where
  "rstrip_space s = rev (dropWhile (\<lambda>c. c = SPACE) (rev s))"

definition endswith_space :: "string \<Rightarrow> bool" where
  "endswith_space s = (s \<noteq> [] \<and> last s = SPACE)"

definition text_of :: "node \<Rightarrow> string" where
  "text_of n = (case n_text n of None \<Rightarrow> [] | Some t \<Rightarrow> t)"

definition is_tref :: "element \<Rightarrow> bool" where
  "is_tref child = (e_namespace_url child = SVG_NAMESPACE \<and> e_local_name child = ''tref'')"

text \<open>The element of an anonymous run, \<^verbatim>\<open>Element('{http://www.w3.org/2000/svg}tspan')\<close>.\<close>

definition tspan_element :: element where
  "tspan_element = Element SVG_NAMESPACE ''tspan'' [] None None []"

definition maybe_pop_rotation ::
  "env \<Rightarrow> bool \<Rightarrow> node \<Rightarrow> rotation \<Rightarrow> rotation \<Rightarrow> node \<times> rotation" where
  "maybe_pop_rotation env condition n original_rotate rot =
     (if condition
      then (case pop_rotation env n original_rotate rot of (items, rot) \<Rightarrow> (set_items n items, rot))
      else (n, rot))"

text \<open>
  Lines 273-318, the loop of \<^verbatim>\<open>text_children\<close> over the child elements. The state of
  the loop is the list \<open>children\<close>, \<open>trailing_space\<close> and \<open>rotate\<close>. \<open>construct\<close> is the
  constructor call for a child of \<open>self\<close>, \<open>text_children\<close> the call of
  \<^verbatim>\<open>child_node.text_children\<close>.
\<close>

fun text_loop ::
  "(element \<Rightarrow> node outcome) \<Rightarrow>
   (node \<Rightarrow> element \<Rightarrow> bool \<Rightarrow> bool \<Rightarrow> (node \<times> node list \<times> bool) outcome) \<Rightarrow>
   env \<Rightarrow> node \<Rightarrow> bool \<Rightarrow> rotation \<Rightarrow> node list \<times> bool \<times> rotation \<Rightarrow> element list \<Rightarrow>
   (node list \<times> bool \<times> rotation) outcome" where
  "text_loop construct text_children env self preserve original_rotate state [] = Returns state"
| "text_loop construct text_children env self preserve original_rotate state (child # rest) =
     (let children = fst state; trailing_space = fst (snd state); rot = snd (snd state)
      in obind
           (if is_tref child
            then tref_child env self child trailing_space original_rotate rot
            else obind (construct child)
                   (\<lambda>child_node.
                      let child_preserve =
                            (dict_get (n_items child_node) XML_SPACE = Some ''preserve'');
                          child_node = set_text child_node
                            (Some (handle_white_spaces (e_text child) child_preserve))
                      in obind (text_children child_node child trailing_space False)
                           (\<lambda>(child_node, grandchildren, trailing_space).
                              let child_node = set_children child_node grandchildren;
                                  trailing_space = endswith_space (text_of child_node);
                                  (child_node, rot) =
                                     maybe_pop_rotation env
                                       (original_rotate \<noteq> [] \<and>
                                        dict_get (n_items child_node) ''rotate'' = None)
                                       child_node original_rotate rot
                              in Returns (child_node, trailing_space, rot, e_tail child))))
           (\<lambda>(child_node, trailing_space, rot, tail).
              if truthy tail
              then obind (construct tspan_element)
                     (\<lambda>anonymous.
                        let anonymous = set_text anonymous
                              (Some (handle_white_spaces tail preserve));
                            (anonymous, rot) =
                               maybe_pop_rotation env (original_rotate \<noteq> []) anonymous
                                 original_rotate rot;
                            anonymous =
                              (if trailing_space \<and> \<not> preserve
                               then set_text anonymous (Some (lstrip_space (text_of anonymous)))
                               else anonymous);
                            trailing_space =
                              (if text_of anonymous \<noteq> []
                               then endswith_space (text_of anonymous) else trailing_space)
                        in text_loop construct text_children env self preserve original_rotate
                             (children @ [child_node, anonymous], trailing_space, rot) rest)
              else text_loop construct text_children env self preserve original_rotate
                     (children @ [child_node], trailing_space, rot) rest))"

text \<open>
  \<^verbatim>\<open>Node.text_children\<close> (lines 259-323), with the constructor and itself as
  parameters. It returns the node as it leaves it, the children and \<open>trailing_space\<close>.
\<close>

definition text_children_body ::
  "(element \<Rightarrow> style \<Rightarrow> fetcher \<Rightarrow> node option \<Rightarrow> bool \<Rightarrow> string option \<Rightarrow> bool \<Rightarrow>
      string option \<Rightarrow> node outcome) \<Rightarrow>
   (node \<Rightarrow> element \<Rightarrow> bool \<Rightarrow> bool \<Rightarrow> (node \<times> node list \<times> bool) outcome) \<Rightarrow>
   env \<Rightarrow> node \<Rightarrow> element \<Rightarrow> bool \<Rightarrow> bool \<Rightarrow> (node \<times> node list \<times> bool) outcome" where
  "text_children_body node_init text_children env self element trailing_space text_root =
     (let preserve = (dict_get (n_items self) XML_SPACE = Some ''preserve'');
          t = handle_white_spaces (e_text element) preserve;
          t = (if trailing_space \<and> \<not> preserve then lstrip_space t else t);
          self = set_text self (Some t);
          original_rotate = rotations env self;
          (self, rot) =
             maybe_pop_rotation env (original_rotate \<noteq> []) self original_rotate original_rotate;
          trailing_space =
             (if text_of self \<noteq> [] then endswith_space (text_of self) else trailing_space)
      in obind (text_loop
                  (\<lambda>child. node_init child (n_style self) (n_url_fetcher self) (Some self)
                             False None (n_unsafe self) None)
                  text_children env self preserve original_rotate
                  ([], trailing_space, rot) (e_children element))
           (\<lambda>(children, trailing_space, rot).
              Returns (if text_root \<and> children = [] \<and> \<not> preserve
                       then set_text self (Some (rstrip_space (text_of self))) else self,
                       children, trailing_space)))"

text \<open>
  The two functions call each other; \<open>node_init\<close> and \<open>text_children\<close> are cut off at
  a depth of \<open>n\<close> nested calls.
\<close>

fun node_init ::
    "nat \<Rightarrow> env \<Rightarrow> element \<Rightarrow> style \<Rightarrow> fetcher \<Rightarrow> node option \<Rightarrow> bool \<Rightarrow> string option \<Rightarrow>
     bool \<Rightarrow> string option \<Rightarrow> node outcome"
  and text_children ::
    "nat \<Rightarrow> env \<Rightarrow> node \<Rightarrow> element \<Rightarrow> bool \<Rightarrow> bool \<Rightarrow> (node \<times> node list \<times> bool) outcome"
where
  "node_init 0 env element style url_fetcher parent parent_children url unsafe self_url =
     Unfinished"
| "node_init (Suc n) env element style url_fetcher parent parent_children url unsafe self_url =
     node_init_body (text_children n env) (node_init n env) env element style url_fetcher
       parent parent_children url unsafe self_url"
| "text_children 0 env self element trailing_space text_root = Unfinished"
| "text_children (Suc n) env self element trailing_space text_root =
     text_children_body (node_init n env) (text_children n env) env self element
       trailing_space text_root"

section \<open>Loading trees\<close>

text \<open>
  A file object: what \<^verbatim>\<open>read()\<close> returns and its attribute \<^verbatim>\<open>name\<close>, if it has one.
\<close>

record file_obj =
  fo_read :: bytes
  fo_name :: "string option"

text \<open>
  The tree cache, a \<^verbatim>\<open>dict\<close> whose keys are pairs of a URL and an element id (a
  string, or \<^verbatim>\<open>None\<close>).
\<close>

type_synonym tree_cache = "((string \<times> string option) \<times> node) list"

fun cache_setitem :: "string \<times> string option \<Rightarrow> node \<Rightarrow> tree_cache \<Rightarrow> tree_cache" where
  "cache_setitem k v [] = [(k, v)]"
| "cache_setitem k v ((k', v') # d) =
     (if k' = k then (k', v) # d else (k', v') # cache_setitem k v d)"

text \<open>The keyword arguments of \<^verbatim>\<open>Tree\<close>.\<close>

record kwargs =
  kw_bytestring :: "bytes option"
  kw_file_obj :: "file_obj option"
  kw_url :: "string option"
  kw_unsafe :: bool
  kw_parent :: "node option"
  kw_parent_children :: bool
  kw_tree_cache :: "tree_cache option"
  kw_url_fetcher :: "fetcher option"

text \<open>\<^verbatim>\<open>any(parsed_url[:-1])\<close> and \<^verbatim>\<open>parsed_url[:-1] + ('',)\<close>.\<close>

definition any_but_fragment :: "parsed_url \<Rightarrow> bool" where
  "any_but_fragment u =
     (scheme u \<noteq> [] \<or> netloc u \<noteq> [] \<or> path u \<noteq> [] \<or> params u \<noteq> [] \<or> query u \<noteq> [])"

definition without_fragment :: "parsed_url \<Rightarrow> parsed_url" where
  "without_fragment u = u\<lparr>fragment := []\<rparr>"

text \<open>\<^verbatim>\<open>Tree.__new__\<close> (lines 328-351): the node of a cache hit, or nothing.\<close>

definition tree_new :: "nat \<Rightarrow> env \<Rightarrow> kwargs \<Rightarrow> node outcome option" where
  "tree_new n env kw =
     (case kw_tree_cache kw of
        None \<Rightarrow> None
      | Some tree_cache \<Rightarrow>
          if tree_cache \<noteq> [] \<and> truthy (kw_url kw)
          then
            (let parsed_url = parse_url env (kw_url kw) None;
                 element_id = fragment parsed_url;
                 parent = kw_parent kw;
                 unsafe = kw_unsafe kw;
                 url = (if any_but_fragment parsed_url
                        then Some (urlunparse env (without_fragment parsed_url))
                        else (case parent of
                                None \<Rightarrow> None
                              | Some p \<Rightarrow> if n_items p \<noteq> [] then n_url p else None))
             in case url of
                  None \<Rightarrow> None
                | Some u \<Rightarrow>
                    if u \<noteq> []
                    then (case map_of tree_cache (u, Some element_id) of
                            None \<Rightarrow> None
                          | Some cached_tree \<Rightarrow>
                              Some (obind (node_init n env (n_element cached_tree)
                                             (n_style cached_tree) (n_url_fetcher cached_tree)
                                             parent False None unsafe None)
                                      (\<lambda>new_tree.
                                         Returns (set_tree_attributes new_tree
                                                    (n_xml_tree cached_tree) url
                                                    (n_tag cached_tree)))))
                    else None)
          else None)"

text \<open>
  What \<^verbatim>\<open>Tree.__init__\<close> does to the world outside: it reads a URL, parses a
  byte string, computes the style sheets.
\<close>

datatype event = ReadUrl parsed_url | Fromstring bytes | ParseStylesheets

text \<open>
  Lines 362-385: the byte string, the attribute \<^verbatim>\<open>url\<close> and \<open>element_id\<close>.
\<close>

definition or_none :: "string \<Rightarrow> string option" where
  "or_none s = (if s = [] then None else Some s)"

definition tree_source ::
  "env \<Rightarrow> kwargs \<Rightarrow> error + (bytes option \<times> string option \<times> string option)" where
  "tree_source env kw =
     (case kw_bytestring kw of
        Some bytestring \<Rightarrow> Inr (Some bytestring, kw_url kw, None)
      | None \<Rightarrow>
          (case kw_file_obj kw of
             Some f \<Rightarrow>
               Inr (Some (fo_read f),
                    if fo_name f = Some ''<stdin>'' then None else fo_name f, None)
           | None \<Rightarrow>
               (case kw_url kw of
                  Some url \<Rightarrow>
                    (let parent_url = (case kw_parent kw of
                                         None \<Rightarrow> None
                                       | Some p \<Rightarrow> if n_items p \<noteq> [] then n_url p else None);
                         parsed_url = parse_url env (Some url) parent_url
                     in if fragment parsed_url \<noteq> []
                        then Inr (None, or_none (urlunparse env (without_fragment parsed_url)),
                                  Some (fragment parsed_url))
                        else Inr (None, or_none (geturl env parsed_url), None))
                | None \<Rightarrow>
                    Inl (TypeError ''No input. Use one of bytestring, file_obj or url.''))))"

text \<open>Lines 387-389: the top of the chain of parents.\<close>

fun root_parent :: "node \<Rightarrow> node" where
  "root_parent (Node ch ro el st tg tx fe us xt it ur pa) =
     (case pa of
        None \<Rightarrow> Node ch ro el st tg tx fe us xt it ur pa
      | Some p \<Rightarrow>
          if n_items p \<noteq> [] then root_parent p else Node ch ro el st tg tx fe us xt it ur pa)"

text \<open>Lines 392-399: the document read and parsed.\<close>

definition tree_parse ::
  "env \<Rightarrow> fetcher \<Rightarrow> bool \<Rightarrow> string option \<Rightarrow> bytes option \<Rightarrow> event list \<times> (error + element)" where
  "tree_parse env url_fetcher unsafe self_url bytestring =
     (let fetched =
            (case bytestring of
               None \<Rightarrow> True
             | Some b \<Rightarrow> b = []);
          events = (if fetched then [ReadUrl (parse_url env self_url None)] else [])
      in case (if fetched
               then read_url env (parse_url env self_url None) url_fetcher ''image/svg+xml''
               else Inr (case bytestring of Some b \<Rightarrow> b | None \<Rightarrow> [])) of
           Inl e \<Rightarrow> (events, Inl e)
         | Inr b \<Rightarrow>
             (case (if 2 \<le> length b \<and> take 2 b = [CHR 0x1F, CHR 0x8B]
                    then gzip_decompress env b else Inr b) of
                Inl e \<Rightarrow> (events, Inl e)
              | Inr b \<Rightarrow>
                  (events @ [Fromstring b],
                   ElementTree_fromstring env b (\<not> unsafe) (\<not> unsafe))))"

text \<open>Lines 386-399: the document of the tree.\<close>

definition tree_document ::
  "env \<Rightarrow> fetcher \<Rightarrow> bool \<Rightarrow> node option \<Rightarrow> string option \<Rightarrow> bytes option \<Rightarrow>
   event list \<times> (error + element)" where
  "tree_document env url_fetcher unsafe parent self_url bytestring =
     (case parent of
        None \<Rightarrow> tree_parse env url_fetcher unsafe self_url bytestring
      | Some p \<Rightarrow>
          if n_items p \<noteq> [] \<and> self_url = n_url p
          then ([], Inr (n_xml_tree (root_parent p)))
          else tree_parse env url_fetcher unsafe self_url bytestring)"

text \<open>
  \<^verbatim>\<open>root.iter_subtree()\<close>: the element and its descendants in document order; and
  lines 403-411, the root element of the tree.
\<close>

fun iter_subtree :: "element \<Rightarrow> element list" where
  "iter_subtree (Element ns ln at tx ta cs) =
     Element ns ln at tx ta cs # concat (map iter_subtree cs)"

definition tree_fragment :: "element \<Rightarrow> string option \<Rightarrow> error + element" where
  "tree_fragment tree element_id =
     (case element_id of
        None \<Rightarrow> Inr tree
      | Some i \<Rightarrow>
          if i = [] then Inr tree
          else (case find (\<lambda>element. dict_get (e_attrib element) ''id'' = Some i)
                       (iter_subtree tree) of
                  Some element \<Rightarrow> Inr element
                | None \<Rightarrow>
                    Inl (TypeError (''No tag with id='' @ [DQUOTE] @ i @ [DQUOTE] @ '' found.''))))"

text \<open>
  Line 402: the style of the tree, with the event of computing it.
\<close>

definition tree_style ::
  "env \<Rightarrow> node option \<Rightarrow> element \<Rightarrow> string option \<Rightarrow> string option \<Rightarrow> event list \<times> style" where
  "tree_style env parent tree self_url url =
     (case parent of
        None \<Rightarrow> ([ParseStylesheets], css_parse_stylesheets env tree self_url url)
      | Some p \<Rightarrow>
          if n_items p \<noteq> [] then ([], n_style p)
          else ([ParseStylesheets], css_parse_stylesheets env tree self_url url))"

text \<open>
  Lines 412-417: the constructor of \<^verbatim>\<open>Node\<close> on the root element, \<^verbatim>\<open>root = True\<close>,
  and the entry in the cache.
\<close>

definition tree_finish ::
  "nat \<Rightarrow> env \<Rightarrow> kwargs \<Rightarrow> fetcher \<Rightarrow> event list \<Rightarrow> style \<Rightarrow> element \<Rightarrow> string option \<Rightarrow>
   event list \<times> tree_cache option \<times> node outcome" where
  "tree_finish n env kw url_fetcher events style root self_url =
     (case node_init n env root style url_fetcher (kw_parent kw) (kw_parent_children kw)
             self_url (kw_unsafe kw) self_url of
        Returns self \<Rightarrow>
          (let self = set_root self
           in (events,
               (case kw_tree_cache kw of
                  None \<Rightarrow> None
                | Some tree_cache \<Rightarrow>
                    (case n_url self of
                       None \<Rightarrow> Some tree_cache
                     | Some u \<Rightarrow>
                         if u \<noteq> []
                         then Some (cache_setitem (u, dict_get (n_items self) ''id'') self
                                      tree_cache)
                         else Some tree_cache)),
               Returns self))
      | Raises e \<Rightarrow> (events, kw_tree_cache kw, Raises e)
      | Unfinished \<Rightarrow> (events, kw_tree_cache kw, Unfinished))"

text \<open>
  \<^verbatim>\<open>Tree.__init__\<close> (lines 353-417). It gives the events, the cache as it leaves it
  and the tree.
\<close>

definition tree_init ::
  "nat \<Rightarrow> env \<Rightarrow> kwargs \<Rightarrow> event list \<times> tree_cache option \<times> node outcome" where
  "tree_init n env kw =
     (let url_fetcher = (case kw_url_fetcher kw of Some f \<Rightarrow> f | None \<Rightarrow> fetch env)
      in case tree_source env kw of
           Inl e \<Rightarrow> ([], kw_tree_cache kw, Raises e)
         | Inr (bytestring, self_url, element_id) \<Rightarrow>
             (case tree_document env url_fetcher (kw_unsafe kw) (kw_parent kw) self_url
                     bytestring of
                (events, Inl e) \<Rightarrow> (events, kw_tree_cache kw, Raises e)
              | (events, Inr tree) \<Rightarrow>
                  (case tree_style env (kw_parent kw) tree self_url (kw_url kw) of
                     (style_events, style) \<Rightarrow>
                       (case tree_fragment tree element_id of
                          Inl e \<Rightarrow> (events @ style_events, kw_tree_cache kw, Raises e)
                        | Inr root \<Rightarrow>
                            tree_finish n env kw url_fetcher (events @ style_events) style
                              root self_url))))"

text \<open>
  The call \<^verbatim>\<open>Tree(**kwargs)\<close>: \<^verbatim>\<open>__new__\<close>, and \<^verbatim>\<open>__init__\<close> only on what is a
  \<^verbatim>\<open>Tree\<close> (the node of a cache hit is a plain \<^verbatim>\<open>Node\<close>).
\<close>

definition tree_load ::
  "nat \<Rightarrow> env \<Rightarrow> kwargs \<Rightarrow> event list \<times> tree_cache option \<times> node outcome" where
  "tree_load n env kw =
     (case tree_new n env kw of
        Some new_tree \<Rightarrow> ([], kw_tree_cache kw, new_tree)
      | None \<Rightarrow> tree_init n env kw)"

section \<open>Stand-ins for the examples\<close>

text \<open>
  For the evaluation of examples the functions of the other modules are replaced by
  simple ones: a URL is a path with an optional \<^verbatim>\<open>#fragment\<close>, a URL without path
  takes the path of the base, the bytes behind a URL are the path itself, and a byte
  string parses to the document listed for it.
\<close>

definition sample_parse_url :: "string option \<Rightarrow> string option \<Rightarrow> parsed_url" where
  "sample_parse_url url base =
     (let u = (case url of Some u \<Rightarrow> u | None \<Rightarrow> []);
          p = takeWhile (\<lambda>c. c \<noteq> CHR ''#'') u
      in \<lparr>scheme = [], netloc = [],
          path = (if p = [] then (case base of Some b \<Rightarrow> b | None \<Rightarrow> []) else p),
          params = [], query = [],
          fragment = drop 1 (dropWhile (\<lambda>c. c \<noteq> CHR ''#'') u)\<rparr>)"

definition sample_geturl :: "parsed_url \<Rightarrow> string" where
  "sample_geturl u = path u @ (if fragment u = [] then [] else CHR ''#'' # fragment u)"

definition sample_env :: "(bytes \<times> element) list \<Rightarrow> env" where
  "sample_env documents =
     \<lparr>parse_url = sample_parse_url,
      urlunparse = sample_geturl,
      geturl = sample_geturl,
      read_url = (\<lambda>u url_fetcher resource_type. Inr (path u)),
      fetch = (\<lambda>u resource_type. Inr u),
      gzip_decompress = Inr,
      ElementTree_fromstring =
        (\<lambda>b forbid_entities forbid_external.
           case map_of documents b of
             Some d \<Rightarrow> Inr d
           | None \<Rightarrow> Inl (CollaboratorError ''ParseError'')),
      css_parse_stylesheets = (\<lambda>tree u v. (\<lambda>e. [], \<lambda>e. [])),
      css_parse_declarations = (\<lambda>s. ([], [])),
      match_features = (\<lambda>e. dict_get (e_attrib e) ''systemLanguage'' \<noteq> Some ''xx''),
      rotations = (\<lambda>n. []),
      pop_rotation = (\<lambda>n original_rotate rot. (n_items n, rot)),
      tref_child = (\<lambda>n child trailing_space original_rotate rot.
                      Raises (CollaboratorError ''tref''))\<rparr>"

definition url_kwargs :: "string \<Rightarrow> node option \<Rightarrow> tree_cache option \<Rightarrow> kwargs" where
  "url_kwargs url parent tree_cache =
     \<lparr>kw_bytestring = None, kw_file_obj = None, kw_url = Some url, kw_unsafe = False,
      kw_parent = parent, kw_parent_children = False, kw_tree_cache = tree_cache,
      kw_url_fetcher = None\<rparr>"

text \<open>The node a call returns, and the first child of a node.\<close>

definition returned :: "'a outcome \<Rightarrow> 'a option" where
  "returned r = (case r of Returns x \<Rightarrow> Some x | Raises e \<Rightarrow> None | Unfinished \<Rightarrow> None)"

definition raised :: "'a outcome \<Rightarrow> error option" where
  "raised r = (case r of Returns x \<Rightarrow> None | Raises e \<Rightarrow> Some e | Unfinished \<Rightarrow> None)"

definition loaded :: "event list \<times> tree_cache option \<times> node outcome \<Rightarrow> node option" where
  "loaded r = returned (snd (snd r))"

definition first_child :: "node option \<Rightarrow> node option" where
  "first_child n = (case n of None \<Rightarrow> None | Some p \<Rightarrow>
      (case n_children p of [] \<Rightarrow> None | c # cs \<Rightarrow> Some c))"

definition document_a :: element where
  "document_a = Element SVG_NAMESPACE ''svg'' [(''id'', ''a'')] None None
     [Element SVG_NAMESPACE ''use'' [(''href'', ''b.svg'')] None None []]"

definition document_b :: element where
  "document_b = Element SVG_NAMESPACE ''svg'' [(''id'', ''b'')] None None
     [Element SVG_NAMESPACE ''use'' [(''href'', ''#c'')] None None [],
      Element SVG_NAMESPACE ''rect'' [(''id'', ''c'')] None None []]"

section \<open>Properties\<close>

lemma re_sub_class_single:
  "re_sub_class cls [r] s = map (\<lambda>c. if cls c then r else c) s"
  by (induction s) simp_all

lemma re_sub_class_empty:
  "re_sub_class cls [] s = filter (\<lambda>c. \<not> cls c) s"
  by (induction s) simp_all

lemma collapse_runs_spaces:
  "collapse_runs (SPACE # cs) = SPACE # collapse_runs (dropWhile (\<lambda>d. d = SPACE) cs)"
proof (induction cs)
  case Nil
  show ?case by simp
next
  case (Cons d ds)
  show ?case
  proof (cases "d = SPACE")
    case True
    with Cons show ?thesis by simp
  next
    case False
    then show ?thesis by simp
  qed
qed

lemma collapse_runs_other:
  "c \<noteq> SPACE \<Longrightarrow> collapse_runs (c # cs) = c # collapse_runs cs"
  by (cases cs) simp_all

lemma re_sub_spaces_collapse: "re_sub_spaces s = collapse_runs s"
proof (induction s rule: re_sub_spaces.induct)
  case 1
  show ?case by simp
next
  case (2 c cs)
  show ?case
  proof (cases "c = SPACE")
    case True
    with 2 show ?thesis by (simp add: collapse_runs_spaces)
  next
    case False
    with 2 show ?thesis by (simp add: collapse_runs_other)
  qed
qed

text \<open>
  C4. In preserve mode every newline, carriage return and tab becomes exactly one
  space and nothing else changes; in default mode newlines and carriage returns are
  removed, every tab becomes a space, and each run of two or more spaces is collapsed to
  one space. Default mode maps \<^verbatim>\<open>"a\n\tb   c"\<close> to \<^verbatim>\<open>"a b c"\<close>, preserve mode maps
  \<^verbatim>\<open>"a\n\tb"\<close> to \<^verbatim>\<open>"a  b"\<close>.
\<close>

theorem handle_white_spaces_modes:
  "handle_white_spaces (Some s) True =
     map (\<lambda>c. if c = LF \<or> c = CR \<or> c = TAB then SPACE else c) s
   \<and> handle_white_spaces (Some s) False =
     collapse_runs (map (\<lambda>c. if c = TAB then SPACE else c)
       (filter (\<lambda>c. \<not> (c = LF \<or> c = CR)) s))
   \<and> handle_white_spaces (Some (''a'' @ [LF, TAB] @ ''b   c'')) False = ''a b c''
   \<and> handle_white_spaces (Some (''a'' @ [LF, TAB] @ ''b'')) True = ''a  b''"
proof -
  have p: "handle_white_spaces (Some s) True =
      map (\<lambda>c. if c = LF \<or> c = CR \<or> c = TAB then SPACE else c) s"
    by (simp add: handle_white_spaces_def re_sub_class_single)
  have d: "handle_white_spaces (Some s) False =
      collapse_runs (map (\<lambda>c. if c = TAB then SPACE else c)
        (filter (\<lambda>c. \<not> (c = LF \<or> c = CR)) s))"
    by (simp add: handle_white_spaces_def re_sub_class_single re_sub_class_empty
        re_sub_spaces_collapse)
  have e1: "handle_white_spaces (Some (''a'' @ [LF, TAB] @ ''b   c'')) False = ''a b c''"
    by (simp add: handle_white_spaces_def LF_def TAB_def CR_def SPACE_def)
  have e2: "handle_white_spaces (Some (''a'' @ [LF, TAB] @ ''b'')) True = ''a  b''"
    by (simp add: handle_white_spaces_def LF_def TAB_def CR_def SPACE_def)
  from p d e1 e2 show ?thesis by blast
qed

subsection \<open>Dictionaries\<close>

lemma map_of_setitem: "map_of (setitem k v d) = (map_of d)(k \<mapsto> v)"
  by (induction d) (auto simp: fun_eq_iff)

lemma map_of_delitem: "map_of (delitem k d) = (map_of d)(k := None)"
  by (induction d) (auto simp: delitem_def fun_eq_iff)

lemma map_of_Some_key: "map_of d a = Some v \<Longrightarrow> a \<in> fst ` set d"
  by (induction d) (auto split: if_splits)

lemma key_map_of_Some: "a \<in> fst ` set d \<Longrightarrow> \<exists>v. map_of d a = Some v"
  by (induction d) auto

lemma map_of_graph:
  "\<forall>(k, v)\<in>set xs. g k = Some v \<Longrightarrow>
   map_of xs a = (if a \<in> fst ` set xs then g a else None)"
  by (induction xs) (auto simp: rev_image_eqI)

lemma inherited_items_graph:
  "\<forall>(k, v)\<in>set (inherited_items (Some p)). map_of p k = Some v"
  by (auto simp: inherited_items_def dict_get_def split: option.splits)

lemma inherited_items_keys1:
  assumes "a \<in> fst ` set (inherited_items (Some p))"
  shows "a \<in> fst ` set p \<and> a \<notin> NOT_INHERITED_ATTRIBUTES"
proof -
  from assms obtain v where "(a, v) \<in> set (inherited_items (Some p))"
    by (auto simp: image_iff)
  then obtain k where k: "k \<in> set (filter (\<lambda>attribute. attribute \<notin> NOT_INHERITED_ATTRIBUTES) (map fst p))"
    and m: "(a, v) \<in> set (case dict_get p k of Some v \<Rightarrow> [(k, v)] | None \<Rightarrow> [])"
    unfolding inherited_items_def by auto
  from m have "a = k" by (cases "dict_get p k") auto
  with k show "a \<in> fst ` set p \<and> a \<notin> NOT_INHERITED_ATTRIBUTES" by simp
qed

lemma inherited_items_keys2:
  assumes h: "a \<in> fst ` set p" "a \<notin> NOT_INHERITED_ATTRIBUTES"
  shows "a \<in> fst ` set (inherited_items (Some p))"
proof -
  from key_map_of_Some [OF h(1)] obtain v where v: "map_of p a = Some v" ..
  let ?f = "\<lambda>attribute. case dict_get p attribute of
                                    Some v \<Rightarrow> [(attribute, v)] | None \<Rightarrow> []"
  have 1: "a \<in> set (filter (\<lambda>attribute. attribute \<notin> NOT_INHERITED_ATTRIBUTES) (map fst p))"
    using h by simp
  have 2: "(a, v) \<in> set (?f a)" using v by (simp add: dict_get_def)
  have "(a, v) \<in> set (concat (map ?f (filter (\<lambda>attribute. attribute \<notin> NOT_INHERITED_ATTRIBUTES) (map fst p))))"
    unfolding set_concat set_map using 1 2 by blast
  then have "(a, v) \<in> set (inherited_items (Some p))"
    by (simp add: inherited_items_def)
  then have "fst (a, v) \<in> fst ` set (inherited_items (Some p))" by (rule imageI)
  then show ?thesis by simp
qed

subsection \<open>Inheritance, cascade and special values\<close>

lemma map_of_inherited:
  "map_of (rev (inherited_items (Some p))) a =
     (if a \<in> NOT_INHERITED_ATTRIBUTES then None else map_of p a)"
proof -
  have g: "\<forall>(k, v)\<in>set (rev (inherited_items (Some p))). map_of p k = Some v"
    using inherited_items_graph [of p] by simp
  have e: "map_of (rev (inherited_items (Some p))) a =
        (if a \<in> fst ` set (rev (inherited_items (Some p))) then map_of p a else None)"
    by (rule map_of_graph [OF g])
  show ?thesis
  proof (cases "a \<in> fst ` set p \<and> a \<notin> NOT_INHERITED_ATTRIBUTES")
    case True
    then have "a \<in> fst ` set (inherited_items (Some p))"
      by (simp add: inherited_items_keys2)
    with e True show ?thesis by simp
  next
    case False
    then have n: "a \<notin> fst ` set (inherited_items (Some p))"
      using inherited_items_keys1 [of a p] by auto
    show ?thesis
    proof (cases "a \<in> NOT_INHERITED_ATTRIBUTES")
      case True
      with e n show ?thesis by simp
    next
      case F: False
      with False have "a \<notin> fst ` set p" by simp
      then have "map_of p a = None" by (simp add: map_of_eq_None_iff)
      with e n F show ?thesis by simp
    qed
  qed
qed

lemma map_of_inherit_fold:
  "map_of (foldl (\<lambda>d attribute.
              case parent of
                None \<Rightarrow> delitem attribute d
              | Some p \<Rightarrow>
                  (case dict_get p attribute of
                     Some v \<Rightarrow> setitem attribute v d
                   | None \<Rightarrow> delitem attribute d)) d as) a =
   (if a \<in> set as then (case parent of None \<Rightarrow> None | Some p \<Rightarrow> map_of p a) else map_of d a)"
proof (induction as arbitrary: d)
  case Nil
  show ?case by simp
next
  case (Cons b as)
  show ?case
    by (simp add: Cons map_of_setitem map_of_delitem dict_get_def split: option.splits)
qed

lemma map_of_replace_inherit:
  "map_of (replace_inherit parent d) a =
     (if map_of d a = Some ''inherit''
      then (case parent of None \<Rightarrow> None | Some p \<Rightarrow> map_of p a)
      else map_of d a)"
proof (cases "map_of d a = Some ''inherit''")
  case True
  then have "a \<in> fst ` set d" by (rule map_of_Some_key)
  then have "a \<in> set (filter (\<lambda>attribute. dict_get d attribute = Some ''inherit'') (map fst d))"
    using True by (simp add: dict_get_def)
  then show ?thesis
    unfolding replace_inherit_def map_of_inherit_fold using True by simp
next
  case False
  then have "a \<notin> set (filter (\<lambda>attribute. dict_get d attribute = Some ''inherit'') (map fst d))"
    by (simp add: dict_get_def)
  then show ?thesis
    unfolding replace_inherit_def map_of_inherit_fold using False by (simp add: dict_get_def)
qed

lemma map_of_current_color_fold:
  assumes "''color'' \<notin> set as"
  shows "map_of (foldl (\<lambda>d attribute.
              if dict_get d attribute = Some ''currentColor''
              then setitem attribute
                     (case dict_get d ''color'' of Some c \<Rightarrow> c | None \<Rightarrow> ''black'') d
              else d) e as) a =
       (if a \<in> set as \<and> map_of e a = Some ''currentColor''
        then Some (case map_of e ''color'' of Some c \<Rightarrow> c | None \<Rightarrow> ''black'')
        else map_of e a)"
  using assms
proof (induction as arbitrary: e)
  case Nil
  show ?case by simp
next
  case (Cons b as)
  have b: "''color'' \<noteq> b" using Cons.prems by auto
  have c: "''color'' \<notin> set as" using Cons.prems by auto
  let ?col = "case map_of e ''color'' of Some c \<Rightarrow> c | None \<Rightarrow> ''black''"
  define e' where "e' = (if dict_get e b = Some ''currentColor''
              then setitem b
                     (case dict_get e ''color'' of Some c \<Rightarrow> c | None \<Rightarrow> ''black'') e
              else e)"
  have l: "map_of e' x = (if x = b \<and> map_of e b = Some ''currentColor'' then Some ?col
                          else map_of e x)" for x
    by (simp add: e'_def dict_get_def map_of_setitem)
  have lc: "map_of e' ''color'' = map_of e ''color''"
    using b by (simp add: l)
  let ?F = "\<lambda>d attribute.
              if dict_get d attribute = Some ''currentColor''
              then setitem attribute
                     (case dict_get d ''color'' of Some c \<Rightarrow> c | None \<Rightarrow> ''black'') d
              else d"
  have fold_eq: "foldl ?F e (b # as) = foldl ?F e' as"
    by (simp add: e'_def)
  have "map_of (foldl ?F e (b # as)) a =
       (if a \<in> set as \<and> map_of e' a = Some ''currentColor''
        then Some (case map_of e' ''color'' of Some c \<Rightarrow> c | None \<Rightarrow> ''black'')
        else map_of e' a)"
    unfolding fold_eq by (rule Cons.IH [OF c])
  also have "\<dots> = (if a \<in> set (b # as) \<and> map_of e a = Some ''currentColor''
        then Some ?col else map_of e a)"
    unfolding lc l [of a] by auto
  finally show ?case .
qed

lemma map_of_replace_current_color:
  "map_of (replace_current_color d) a =
     (if a \<in> set COLOR_ATTRIBUTES \<and> map_of d a = Some ''currentColor''
      then Some (case map_of d ''color'' of Some c \<Rightarrow> c | None \<Rightarrow> ''black'')
      else map_of d a)"
proof -
  have "''color'' \<notin> set COLOR_ATTRIBUTES" by (simp add: COLOR_ATTRIBUTES_def)
  from map_of_current_color_fold [OF this] show ?thesis
    unfolding replace_current_color_def .
qed

lemma map_of_dict_update: "map_of (dict_update d items) = map_of d ++ map_of (rev items)"
  unfolding dict_update_def
proof (induction items arbitrary: d)
  case Nil
  show ?case by simp
next
  case (Cons a items)
  obtain k v where a: "a = (k, v)" by (cases a)
  show ?case
    by (simp add: a Cons map_of_setitem map_add_upd_left fun_eq_iff map_add_def split: option.splits)
qed

lemma map_of_apply_declarations:
  "map_of (apply_declarations d ds) =
     map_of d ++ map_of (rev (map (\<lambda>(name, value). (name, strip value)) ds))"
  unfolding apply_declarations_def
proof (induction ds arbitrary: d)
  case Nil
  show ?case by simp
next
  case (Cons a ds)
  obtain k v where a: "a = (k, v)" by (cases a)
  show ?case
    by (simp add: a Cons map_of_setitem fun_eq_iff map_add_def split: option.splits)
qed

lemma map_of_apply_declaration_lists:
  "map_of (apply_declaration_lists d dss) =
     map_of d ++ map_of (rev (map (\<lambda>(name, value). (name, strip value)) (concat dss)))"
  unfolding apply_declaration_lists_def
proof (induction dss arbitrary: d)
  case Nil
  show ?case by simp
next
  case (Cons ds dss)
  show ?case
    by (simp add: Cons map_of_apply_declarations)
qed

lemma map_of_cascade:
  "map_of (cascade parent attrib normal normal_attr important important_attr) =
   map_of (rev (inherited_items parent @ attrib @
     map (\<lambda>(name, value). (name, strip value))
       (concat normal @ normal_attr @ concat important @ important_attr)))"
  by (simp add: cascade_def map_of_apply_declaration_lists map_of_dict_update)








lemma map_of_rev_None: "a \<notin> fst ` set xs \<Longrightarrow> map_of (rev xs) a = None"
  by (simp add: map_of_eq_None_iff)

lemma stripped_keys:
  "fst ` set (map (\<lambda>(name, value). (name, strip value)) ds) = fst ` set ds"
  by (induction ds) auto

text \<open>
  What the code copies, and how far the copied values survive. Every attribute of the
  parent outside \<^verbatim>\<open>NOT_INHERITED_ATTRIBUTES\<close> is copied into the child before the
  child's own values are applied, and no attribute of that set is copied. For a child
  whose own attributes and declarations name only attributes of that set, the resolved
  attributes outside the set are the parent's, unless the parent holds the word
  \<^verbatim>\<open>currentColor\<close> in a colour attribute: the replacement of that word also runs on
  the copied values.
\<close>

lemma inherited_without_overrides:
  assumes sd: "style_declarations parse attrib = (normal_attr, important_attr)"
    and own: "fst ` set (attrib @ concat normal @ normal_attr @ concat important @ important_attr)
               \<subseteq> NOT_INHERITED_ATTRIBUTES"
    and col: "\<forall>c\<in>set COLOR_ATTRIBUTES.
               c \<notin> NOT_INHERITED_ATTRIBUTES \<longrightarrow> dict_get p c \<noteq> Some ''currentColor''"
  shows "dict_get (dict_update [] (inherited_items (Some p))) a =
           (if a \<in> NOT_INHERITED_ATTRIBUTES then None else dict_get p a)
         \<and> (a \<notin> NOT_INHERITED_ATTRIBUTES \<longrightarrow>
              dict_get (resolve_attributes parse (Some p) attrib normal important) a
                = dict_get p a)"
proof
  show "dict_get (dict_update [] (inherited_items (Some p))) a =
           (if a \<in> NOT_INHERITED_ATTRIBUTES then None else dict_get p a)"
    by (simp add: dict_get_def map_of_dict_update map_of_inherited)
next
  show "a \<notin> NOT_INHERITED_ATTRIBUTES \<longrightarrow>
          dict_get (resolve_attributes parse (Some p) attrib normal important) a
            = dict_get p a"
  proof
    assume a: "a \<notin> NOT_INHERITED_ATTRIBUTES"
    let ?ds = "concat normal @ normal_attr @ concat important @ important_attr"
    let ?c = "cascade (Some p) attrib normal normal_attr important important_attr"
    define own' where "own' = attrib @ map (\<lambda>(name, value). (name, strip value)) ?ds"
    have "fst ` set own' = fst ` set (attrib @ ?ds)"
      unfolding own'_def by (simp only: set_append image_Un stripped_keys)
    with own a have "a \<notin> fst ` set own'" by blast
    then have n: "map_of (rev own') a = None" by (rule map_of_rev_None)
    have t: "inherited_items (Some p) @ attrib @
               map (\<lambda>(name, value). (name, strip value)) ?ds
              = inherited_items (Some p) @ own'"
      by (simp only: own'_def)
    have "map_of ?c a = (map_of (rev (inherited_items (Some p))) ++ map_of (rev own')) a"
      by (simp only: map_of_cascade t rev_append map_of_append)
    also have "\<dots> = map_of (rev (inherited_items (Some p))) a"
      using n by (simp add: map_add_def)
    also have "\<dots> = map_of p a"
      using a by (simp add: map_of_inherited)
    finally have c: "map_of ?c a = map_of p a" .
    have cc: "map_of (replace_current_color ?c) a = map_of p a"
    proof (cases "a \<in> set COLOR_ATTRIBUTES")
      case True
      with col a have "map_of p a \<noteq> Some ''currentColor''" by (simp add: dict_get_def)
      then show ?thesis by (simp add: map_of_replace_current_color c)
    next
      case False
      then show ?thesis by (simp add: map_of_replace_current_color c)
    qed
    have "map_of (post_process (Some p) ?c) a = map_of p a"
      by (simp add: post_process_def map_of_replace_inherit cc)
    then show "dict_get (resolve_attributes parse (Some p) attrib normal important) a
            = dict_get p a"
      by (simp add: resolve_attributes_def sd dict_get_def)
  qed
qed

text \<open>
  C2. For a child without overrides of its own, the attributes outside the
  non-inherited set are those of the parent. This fails on the code for a parent whose
  resolved \<^verbatim>\<open>fill\<close> is the word \<^verbatim>\<open>currentColor\<close>, which the code can leave behind (see
  C3): a root with \<^verbatim>\<open>color="currentColor" fill="currentColor"\<close>, its child with
  \<^verbatim>\<open>fill="inherit" color="red"\<close>, whose resolved \<^verbatim>\<open>fill\<close> is \<^verbatim>\<open>currentColor\<close>, and a
  grandchild without any attribute, whose resolved \<^verbatim>\<open>fill\<close> is \<^verbatim>\<open>red\<close>. The theorem
  evaluates the code on these three elements.
\<close>

theorem inherited_current_color_differs:
  "''fill'' \<notin> NOT_INHERITED_ATTRIBUTES
   \<and> (let root = resolve_attributes (\<lambda>s. ([], [])) None
                    [(''color'', ''currentColor''), (''fill'', ''currentColor'')] [] [];
           parent = resolve_attributes (\<lambda>s. ([], [])) (Some root)
                    [(''fill'', ''inherit''), (''color'', ''red'')] [] [];
           child = resolve_attributes (\<lambda>s. ([], [])) (Some parent) [] [] []
       in dict_get parent ''fill'' = Some ''currentColor''
          \<and> dict_get child ''fill'' = Some ''red'')"
  by code_simp

text \<open>
  C3. No resolved value is the word \<^verbatim>\<open>inherit\<close>, and none of \<^verbatim>\<open>fill\<close>,
  \<^verbatim>\<open>flood-color\<close>, \<^verbatim>\<open>lighting-color\<close>, \<^verbatim>\<open>stop-color\<close>, \<^verbatim>\<open>stroke\<close> resolves to
  the word \<^verbatim>\<open>currentColor\<close>. The second part fails on the code for an element whose
  \<^verbatim>\<open>color\<close> is itself \<^verbatim>\<open>currentColor\<close>: the word is replaced by the value of
  \<^verbatim>\<open>color\<close>, which is the same word. The theorem evaluates the code on a root
  element with \<^verbatim>\<open>color="currentColor" fill="currentColor"\<close>.
\<close>

theorem current_color_kept:
  "dict_get (resolve_attributes parse_declarations None
      [(''color'', ''currentColor''), (''fill'', ''currentColor'')] [] []) ''fill'' =
   Some ''currentColor''"
  by code_simp

text \<open>
  C5, as stated: every declaration of the tiers 3 to 6 goes through the style
  declaration normalizer before it is assigned. The cascade does not call the
  normalizer: the declaration \<^verbatim>\<open>stroke-width: 2PX\<close> is assigned as it is, where the
  normalizer gives \<^verbatim>\<open>2px\<close>.
\<close>

theorem cascade_not_normalized:
  "\<not> (\<forall>d name value. apply_declarations d [(name, value)] =
        (case normalize_style_declaration name value of (n, v) \<Rightarrow> setitem n v d))"
proof
  assume "\<forall>d name value. apply_declarations d [(name, value)] =
        (case normalize_style_declaration name value of (n, v) \<Rightarrow> setitem n v d)"
  then have "apply_declarations [] [(''stroke-width'', ''2PX'')] =
        (case normalize_style_declaration ''stroke-width'' ''2PX'' of (n, v) \<Rightarrow> setitem n v [])"
    by (elim allE)
  moreover have "apply_declarations [] [(''stroke-width'', ''2PX'')] = [(''stroke-width'', ''2PX'')]"
    by code_simp
  moreover have "normalize_style_declaration ''stroke-width'' ''2PX'' = (''stroke-width'', ''2px'')"
    by code_simp
  ultimately show False by simp
qed

lemma map_of_stripped:
  "map_of (map (\<lambda>(name, value). (name, strip value)) ds) name = map_option strip (map_of ds name)"
  by (induction ds) auto

text \<open>
  C5, amended. A declaration of the tiers 3 to 6 is assigned under its name as given,
  with its value stripped of leading and trailing white space and nothing else changed:
  the resolved value of a name whose last declaration in these tiers is \<open>value\<close> is
  \<open>strip value\<close> (before \<^verbatim>\<open>currentColor\<close> and \<^verbatim>\<open>inherit\<close> are replaced).
\<close>

theorem cascade_declaration_verbatim:
  assumes "last_assigned (concat normal @ normal_attr @ concat important @ important_attr) name
             = Some value"
  shows "dict_get (cascade parent attrib normal normal_attr important important_attr) name
           = Some (strip value)"
proof -
  let ?ds = "concat normal @ normal_attr @ concat important @ important_attr"
  have "map_of (rev (map (\<lambda>(name, value). (name, strip value)) ?ds)) name = Some (strip value)"
    using assms map_of_stripped [of "rev ?ds" name]
    by (simp only: last_assigned_def rev_map option.map)
  then show ?thesis
    unfolding dict_get_def map_of_cascade
    by (simp only: rev_append map_of_append map_add_Some_iff) simp
qed

theorem cascade_declaration_verbatim_witness:
  "last_assigned (concat [[(''Fill'', '' RED '')]] @ [] @ concat [] @ []) ''Fill'' = Some '' RED ''
   \<and> dict_get (cascade None [] [[(''Fill'', '' RED '')]] [] [] []) ''Fill'' = Some ''RED''"
proof -
  have h: "last_assigned (concat [[(''Fill'', '' RED '')]] @ [] @ concat [] @ []) ''Fill''
            = Some '' RED ''"
    by code_simp
  have s: "strip '' RED '' = ''RED''"
    by code_simp
  from cascade_declaration_verbatim [OF h, of None "[]"] h s show ?thesis by simp
qed

subsection \<open>The style declaration normalizer\<close>

text \<open>
  C6. For a URL-bearing property the value is lowercased except for the text inside a
  \<^verbatim>\<open>url(...)\<close> notation: normalizing \<^verbatim>\<open>("FILL", "URL(Foo.PNG)")\<close> is to give the name
  \<^verbatim>\<open>fill\<close> and the value \<^verbatim>\<open>url(Foo.PNG)\<close>. On the code the value comes back as
  \<^verbatim>\<open>URL(Foo.PNG)\<close>: the pattern ends its first group, the only text that is lowercased,
  where the notation begins, so the function name \<^verbatim>\<open>URL\<close> outside the parentheses keeps
  its case, while text before the notation is lowercased. The theorem evaluates the
  code on the example and on the same notation after the word \<^verbatim>\<open>RED\<close>.
\<close>

theorem url_function_name_kept:
  "normalize_style_declaration ''FILL'' ''URL(Foo.PNG)'' = (''fill'', ''URL(Foo.PNG)'')
   \<and> normalize_style_declaration ''FILL'' ''RED URL(Foo.PNG)'' = (''fill'', ''red URL(Foo.PNG)'')"
  by code_simp

subsection \<open>Loading trees\<close>

text \<open>
  C8. A load whose resolved URL is the URL of an ancestor tree reuses the document of
  that tree. On the code the URL is compared with the URL of the parent only, and the
  document taken is the one at the top of the chain of parents, whatever its URL. The
  theorem evaluates the code on two documents: \<^verbatim>\<open>a.svg\<close>, whose \<^verbatim>\<open>use\<close> element loads
  \<^verbatim>\<open>b.svg\<close>, and \<^verbatim>\<open>b.svg\<close>, whose \<^verbatim>\<open>use\<close> element loads \<^verbatim>\<open>#c\<close>, an element of
  \<^verbatim>\<open>b.svg\<close> itself. The tree of \<^verbatim>\<open>b.svg\<close> is an ancestor with the resolved URL of the
  last load and holds the document of \<^verbatim>\<open>b.svg\<close>; the load takes the document of
  \<^verbatim>\<open>a.svg\<close>, does not find \<^verbatim>\<open>c\<close> there and raises.
\<close>

theorem nested_load_takes_top_document:
  "(let env = sample_env [(''a.svg'', document_a), (''b.svg'', document_b)];
        tree_a = loaded (tree_load 3 env (url_kwargs ''a.svg'' None None));
        tree_b = loaded (tree_load 3 env (url_kwargs ''b.svg'' (first_child tree_a) None));
        parent = first_child tree_b;
        r = tree_load 3 env (url_kwargs ''#c'' parent None)
    in map_option n_root tree_b = Some True
       \<and> map_option n_url tree_b = Some (Some ''b.svg'')
       \<and> map_option n_xml_tree tree_b = Some document_b
       \<and> map_option n_url parent = Some (Some ''b.svg'')
       \<and> tree_source env (url_kwargs ''#c'' parent None) = Inr (None, Some ''b.svg'', Some ''c'')
       \<and> tree_document env (fetch env) False parent (Some ''b.svg'') None
           = ([], Inr document_a)
       \<and> fst r = []
       \<and> raised (snd (snd r)) =
           Some (TypeError (''No tag with id='' @ [DQUOTE] @ ''c'' @ [DQUOTE] @ '' found.''))
       \<and> tree_fragment document_b (Some ''c'')
           = Inr (Element SVG_NAMESPACE ''rect'' [(''id'', ''c'')] None None []))"
  by code_simp

end
